theory Spec2Isabelle
  imports Main "HOL-Library.Word" "HOL-Library.Sublist"
begin

section \<open>The expression tree\<close>

text \<open>
  The converters work on the tree that Python's \<^verbatim>\<open>ast.parse\<close> builds (the classes of
  Python 3.4 to 3.7: \<^verbatim>\<open>Num\<close>, \<^verbatim>\<open>Str\<close>, \<^verbatim>\<open>Bytes\<close>, \<^verbatim>\<open>NameConstant\<close>, \<^verbatim>\<open>Index\<close>). Every node
  object can carry the attribute \<^verbatim>\<open>is_reql\<close>, which \<^verbatim>\<open>IsReql\<close> assigns in place: a node is
  a pair of that attribute (\<open>None\<close> while it is absent) and its shape. A tree has no shared
  nodes, so assigning the attribute in place is returning the tree with the attribute set.

  A number literal is an integer or a float; of a float only its \<^verbatim>\<open>repr\<close> text is kept.
  The value of a \<^verbatim>\<open>NameConstant\<close> is \<^verbatim>\<open>None\<close>, \<^verbatim>\<open>True\<close> or \<^verbatim>\<open>False\<close> when the parser built
  the node; \<open>PyStr\<close> stands for a string put there by hand. Strings are lists of 8-bit
  characters, on which the case mappings act as they do on ASCII.
\<close>

datatype number = NInt int | NFloat string

datatype pyconst = PyNone | PyTrue | PyFalse | PyStr string

datatype unaryop = USub | Not_op | UAdd | Invert

datatype operator = Add | Sub | Mult | Div | Mod | Pow_op | LShift | RShift
  | BitOr | BitXor | BitAnd | FloorDiv | MatMult

datatype cmpop = Lt | Gt | GtE | LtE | Eq | NotEq | Is | IsNot | In | NotIn

datatype boolop = And | Or

datatype node = Node (is_reql: "bool option") (shape: shape)
and shape =
    Name string
  | NameConstant pyconst
  | Num number
  | Str string
  | Bytes "8 word list"
  | Attribute node string
  | Call (call_func: node) (call_args: "node list") (call_keywords: "keyword list")
  | Subscript (subscript_value: node) (subscript_slice: node)
  | Index node
  | Slice "node option" "node option" "node option"
  | ExtSlice "node list"
  | UnaryOp unaryop node
  | BinOp node operator node
  | Compare node "cmpop list" "node list"
  | List "node list"
  | Tuple "node list"
  | Dict "node list" "node list"
  | Lambda "string list" node
  | Arg string
  | Assign "node list" node
  | ListComp node "comprehension list"
  | BoolOp boolop "node list"
and keyword = Keyword (kw_is_reql: "bool option") (kw_arg: string) (kw_value: node)
and comprehension = Comprehension (target: node) (iter: node) (ifs: "node list")

text \<open>
  \<open>Attribute value attr\<close>, \<open>Call func args keywords\<close>, \<open>Subscript value slice\<close>,
  \<open>Slice lower upper step\<close>, \<open>BinOp left op right\<close>, \<open>Compare left ops comparators\<close>,
  \<open>Dict keys values\<close>, \<open>Assign targets value\<close>, \<open>ListComp elt generators\<close>. The parameters
  of a \<open>Lambda\<close> are kept by their names (\<^verbatim>\<open>n.arg for n in node.args.args\<close>); \<open>Arg\<close> is the
  node of one parameter, which the emitters visit.
\<close>

abbreviation untagged :: "shape \<Rightarrow> node" where
  "untagged \<equiv> Node None"

definition tagged :: "node \<Rightarrow> bool" where
  "tagged n = (is_reql n = Some True)"

section \<open>conversion\_utils.py: the analysis that sets is\_reql\<close>

record IsReql =
  reql_vars :: "string set"
  passed_to_reql :: bool

text \<open>\<^verbatim>\<open>IsReql.__init__\<close>: \<^verbatim>\<open>self.reql_vars = reql_vars or {'r'}\<close>; \<^verbatim>\<open>None\<close> and the empty
  set are both false.\<close>

definition IsReql_init :: "string set option \<Rightarrow> bool \<Rightarrow> IsReql" where
  "IsReql_init rv p =
     \<lparr>reql_vars = (case rv of None \<Rightarrow> {''r''} | Some s \<Rightarrow> if s = {} then {''r''} else s),
      passed_to_reql = p\<rparr>"

text \<open>
  \<^verbatim>\<open>IsReql.visit\<close>: one equation for each \<^verbatim>\<open>visit_X\<close> method, the last one for
  \<^verbatim>\<open>generic_visit\<close>, which every other class reaches. A method reads \<^verbatim>\<open>child.is_reql\<close>
  only after it has visited the child, and every method assigns the attribute, so the read
  finds a Boolean: \<open>tagged\<close> reads it.
\<close>

lemma size_list_member: "x \<in> set xs \<Longrightarrow> f x \<le> size_list f xs"
  by (induction xs) auto

function (sequential) IsReql_visit :: "IsReql \<Rightarrow> node \<Rightarrow> node"
and IsReql_keyword :: "IsReql \<Rightarrow> bool \<Rightarrow> keyword \<Rightarrow> keyword" where
  "IsReql_visit self (Node t (Name ident)) = Node (Some (ident \<in> reql_vars self)) (Name ident)"
| "IsReql_visit self (Node t (Attribute val attr)) =
     (let val' = IsReql_visit self val in Node (Some (tagged val')) (Attribute val' attr))"
| "IsReql_visit self (Node t (Lambda params body)) =
     (if passed_to_reql self
      then Node (Some True)
             (Lambda params (IsReql_visit (IsReql_init (Some (reql_vars self \<union> set params)) False) body))
      else Node (Some False)
             (Lambda params (IsReql_visit (IsReql_init (Some (reql_vars self)) False) body)))"
| "IsReql_visit self (Node t (Call func args keywords)) =
     (let func' = IsReql_visit self func;
          r = tagged func';
          pp = (if r then IsReql_init (Some (reql_vars self)) True else self)
      in Node (Some r) (Call func' (map (IsReql_visit pp) args) (map (IsReql_keyword pp r) keywords)))"
| "IsReql_visit self (Node t (Subscript val slc)) =
     (let val' = IsReql_visit self val;
          r = tagged val';
          pp = (if r then IsReql_init (Some (reql_vars self)) True else self)
      in Node (Some r) (Subscript val' (IsReql_visit pp slc)))"
| "IsReql_visit self (Node t (Index val)) =
     (let pp = IsReql_init (Some (reql_vars self)) False
      in Node (Some (passed_to_reql self)) (Index (IsReql_visit pp val)))"
| "IsReql_visit self (Node t (Slice lower upper step)) =
     (let pp = IsReql_init (Some (reql_vars self)) False
      in Node (Some (passed_to_reql self))
           (Slice (map_option (IsReql_visit pp) lower) (map_option (IsReql_visit pp) upper)
              (map_option (IsReql_visit pp) step)))"
| "IsReql_visit self (Node t (BinOp left op right)) =
     (let left' = IsReql_visit self left; right' = IsReql_visit self right
      in Node (Some (op \<noteq> Pow_op \<and> (tagged left' \<or> tagged right'))) (BinOp left' op right'))"
| "IsReql_visit self (Node t (Compare left ops comparators)) =
     (let left' = IsReql_visit self left; comparators' = map (IsReql_visit self) comparators
      in Node (Some (tagged left' \<or> list_ex tagged comparators'))
           (Compare left' ops comparators'))"
| "IsReql_visit self (Node t (UnaryOp op operand)) =
     (let operand' = IsReql_visit self operand in Node (Some (tagged operand')) (UnaryOp op operand'))"
| "IsReql_visit self (Node t (List elts)) = Node (Some False) (List (map (IsReql_visit self) elts))"
| "IsReql_visit self (Node t (Tuple elts)) = Node (Some False) (Tuple (map (IsReql_visit self) elts))"
| "IsReql_visit self (Node t (Dict keys vals)) =
     Node (Some False)
       (Dict (map (IsReql_visit self) (take (length vals) keys)
                @ drop (length vals) keys)
             (map (IsReql_visit self) (take (length keys) vals)
                @ drop (length keys) vals))"
| "IsReql_visit self (Node t other) = Node (Some False) other"
| "IsReql_keyword pp r (Keyword t arg val) = Keyword (Some r) arg (IsReql_visit pp val)"
  by pat_completeness auto

termination
  by (relation "measure (\<lambda>x. case x of Inl (_, n) \<Rightarrow> size n | Inr (_, _, k) \<Rightarrow> size k)")
    (auto simp: less_Suc_eq_le dest!: in_set_takeD
       intro: le_SucI trans_le_add1 trans_le_add2 size_list_member)

text \<open>\<^verbatim>\<open>add_is_reql_flags(node, reql_vars=None, passed_to_reql=False)\<close>.\<close>

definition add_is_reql_flags :: "node \<Rightarrow> string set option \<Rightarrow> bool \<Rightarrow> node" where
  "add_is_reql_flags node rv p = IsReql_visit (IsReql_init rv p) node"

text \<open>The classes \<^verbatim>\<open>IsReql\<close> has a \<^verbatim>\<open>visit_X\<close> method for; every other class is
  handled by \<^verbatim>\<open>IsReql.generic_visit\<close>.\<close>

definition IsReql_has_method :: "shape \<Rightarrow> bool" where
  "IsReql_has_method sh =
     (case sh of
        Name _ \<Rightarrow> True | Attribute _ _ \<Rightarrow> True | Lambda _ _ \<Rightarrow> True | Call _ _ _ \<Rightarrow> True
      | Subscript _ _ \<Rightarrow> True | Index _ \<Rightarrow> True | Slice _ _ _ \<Rightarrow> True | BinOp _ _ _ \<Rightarrow> True
      | Compare _ _ _ \<Rightarrow> True | UnaryOp _ _ \<Rightarrow> True | List _ \<Rightarrow> True | Tuple _ \<Rightarrow> True
      | Dict _ _ \<Rightarrow> True | _ \<Rightarrow> False)"

section \<open>Errors\<close>

text \<open>
  An exception is kept by its class and the arguments it was built with. An argument is a
  text; where the source formats \<^verbatim>\<open>ast.dump(node)\<close> into it, the text is followed by the
  node that is dumped. Exceptions that the interpreter raises itself (a missing attribute,
  an index out of range, a missing key, an operand of the wrong type) are kept by their
  class, with no argument.
\<close>

datatype exn_class = RuntimeError | Exception | AttributeError | TypeError | IndexError | KeyError

datatype exn_arg = Text string | TextDump string node

datatype error = Raise (exn_class: exn_class) (exn_args: "exn_arg list")

section \<open>Python strings\<close>

definition backslash :: char where
  "backslash = CHR 0x5C"

definition squote :: char where
  "squote = CHR 0x27"

definition dquote :: char where
  "dquote = CHR 0x22"

definition newline :: char where
  "newline = CHR 0x0A"

definition isupper :: "char \<Rightarrow> bool" where
  "isupper c = (65 \<le> (of_char c :: nat) \<and> (of_char c :: nat) \<le> 90)"

definition islower :: "char \<Rightarrow> bool" where
  "islower c = (97 \<le> (of_char c :: nat) \<and> (of_char c :: nat) \<le> 122)"

definition isdigit :: "char \<Rightarrow> bool" where
  "isdigit c = (48 \<le> (of_char c :: nat) \<and> (of_char c :: nat) \<le> 57)"

definition chr_upper :: "char \<Rightarrow> char" where
  "chr_upper c = (if islower c then char_of ((of_char c :: nat) - 32) else c)"

definition chr_lower :: "char \<Rightarrow> char" where
  "chr_lower c = (if isupper c then char_of ((of_char c :: nat) + 32) else c)"

text \<open>\<^verbatim>\<open>s.upper()\<close>, \<^verbatim>\<open>s.lower()\<close>, \<^verbatim>\<open>s.title()\<close>, \<^verbatim>\<open>s.split(sep)\<close> with a separator of one
  character, and \<^verbatim>\<open>s.endswith(x)\<close>. \<^verbatim>\<open>title\<close> upper-cases a letter that follows a character
  without case and lower-cases a letter that follows a letter. The case mappings are those
  of ASCII: a character above 127 is left as it is, which is what Python does to a byte
  string; on a Unicode string Python maps some of these characters too, to characters that
  an 8-bit character cannot hold, and the properties below that depend on it are stated for
  ASCII.\<close>

definition str_upper :: "string \<Rightarrow> string" where
  "str_upper s = map chr_upper s"

definition str_lower :: "string \<Rightarrow> string" where
  "str_lower s = map chr_lower s"

fun title_from :: "bool \<Rightarrow> string \<Rightarrow> string" where
  "title_from previous_is_cased [] = []"
| "title_from previous_is_cased (c # cs) =
     (if islower c then (if previous_is_cased then c else chr_upper c) # title_from True cs
      else if isupper c then (if previous_is_cased then chr_lower c else c) # title_from True cs
      else c # title_from False cs)"

definition str_title :: "string \<Rightarrow> string" where
  "str_title s = title_from False s"

fun str_split :: "string \<Rightarrow> char \<Rightarrow> string list" where
  "str_split [] sep = [[]]"
| "str_split (c # cs) sep =
     (if c = sep then [] # str_split cs sep
      else (c # hd (str_split cs sep)) # tl (str_split cs sep))"

definition str_endswith :: "string \<Rightarrow> string \<Rightarrow> bool" where
  "str_endswith s x = suffix x s"

text \<open>\<^verbatim>\<open>str(n)\<close> of an integer.\<close>

function str_nat :: "nat \<Rightarrow> string" where
  "str_nat n = (if n < 10 then [''0123456789'' ! n] else str_nat (n div 10) @ [''0123456789'' ! (n mod 10)])"
  by pat_completeness auto

termination
  by (relation "measure id") auto

declare str_nat.simps [simp del]

definition str_int :: "int \<Rightarrow> string" where
  "str_int i = (if i < 0 then CHR ''-'' # str_nat (nat (- i)) else str_nat (nat i))"

text \<open>
  \<^verbatim>\<open>repr(s)\<close> of a string of Python 3 whose code points are below 256. The quote is the
  single quote, unless the string holds a single quote and no double quote. The printable
  code points are those from the space to the tilde and, above them, \<^verbatim>\<open>0xA1\<close> to \<^verbatim>\<open>0xFF\<close>
  but \<^verbatim>\<open>0xAD\<close>.
\<close>

definition hex2 :: "nat \<Rightarrow> string" where
  "hex2 n = [''0123456789abcdef'' ! (n div 16), ''0123456789abcdef'' ! (n mod 16)]"

definition isprintable :: "char \<Rightarrow> bool" where
  "isprintable c =
     (let n = (of_char c :: nat)
      in (32 \<le> n \<and> n \<le> 126) \<or> (161 \<le> n \<and> n \<noteq> 173))"

definition repr_char :: "char \<Rightarrow> char \<Rightarrow> string" where
  "repr_char quote c =
     (if c = quote \<or> c = backslash then [backslash, c]
      else if c = CHR 0x09 then [backslash, CHR ''t'']
      else if c = CHR 0x0A then [backslash, CHR ''n'']
      else if c = CHR 0x0D then [backslash, CHR ''r'']
      else if isprintable c then [c]
      else [backslash, CHR ''x''] @ hex2 (of_char c))"

definition repr_str :: "string \<Rightarrow> string" where
  "repr_str s =
     (let quote = (if squote \<in> set s \<and> dquote \<notin> set s then dquote else squote)
      in [quote] @ concat (map (repr_char quote) s) @ [quote])"

text \<open>\<^verbatim>\<open>repr(b)\<close> of a bytes object: only ASCII is printable.\<close>

definition repr_byte :: "char \<Rightarrow> 8 word \<Rightarrow> string" where
  "repr_byte quote b =
     (let c = (char_of (unat b) :: char)
      in if c = quote \<or> c = backslash then [backslash, c]
         else if c = CHR 0x09 then [backslash, CHR ''t'']
         else if c = CHR 0x0A then [backslash, CHR ''n'']
         else if c = CHR 0x0D then [backslash, CHR ''r'']
         else if 32 \<le> unat b \<and> unat b \<le> 126 then [c]
         else [backslash, CHR ''x''] @ hex2 (unat b))"

definition repr_bytes :: "8 word list \<Rightarrow> string" where
  "repr_bytes bs =
     (let quote = (if 39 \<in> set bs \<and> 34 \<notin> set bs then dquote else squote)
      in [CHR ''b'', quote] @ concat (map (repr_byte quote) bs) @ [quote])"

text \<open>\<^verbatim>\<open>repr(n)\<close> and \<^verbatim>\<open>str(n)\<close> of a number literal, and \<^verbatim>\<open>-n\<close>: of a float the text is kept,
  and negating it puts or removes the sign (the text of a NaN has none).\<close>

definition repr_number :: "number \<Rightarrow> string" where
  "repr_number n = (case n of NInt i \<Rightarrow> str_int i | NFloat s \<Rightarrow> s)"

definition neg_number :: "number \<Rightarrow> number" where
  "neg_number n =
     (case n of
        NInt i \<Rightarrow> NInt (- i)
      | NFloat s \<Rightarrow>
          NFloat (if s = ''nan'' then s
                  else (case s of c # cs \<Rightarrow> if c = CHR ''-'' then cs else CHR ''-'' # s | [] \<Rightarrow> s)))"

section \<open>conversion\_utils.py: camel and dromedary\<close>

text \<open>
  \<^verbatim>\<open>re.match(r'[A-Z][A-Z0-9_]*$|[a-z][a-z0-9_]*$', varname)\<close>. The match starts at the first
  character; the star takes the longest run of its class, and no shorter run can be followed
  by \<^verbatim>\<open>$\<close>, which matches at the end of the string and before a newline that ends it.
\<close>

definition dollar :: "string \<Rightarrow> bool" where
  "dollar rest = (rest = [] \<or> rest = [newline])"

definition snake_re_match :: "string \<Rightarrow> bool" where
  "snake_re_match varname =
     (case varname of
        [] \<Rightarrow> False
      | c # cs \<Rightarrow>
          (isupper c \<and> dollar (dropWhile (\<lambda>x. isupper x \<or> isdigit x \<or> x = CHR ''_'') cs))
        \<or> (islower c \<and> dollar (dropWhile (\<lambda>x. islower x \<or> isdigit x \<or> x = CHR ''_'') cs)))"

text \<open>\<^verbatim>\<open>varname[0]\<close> raises \<^verbatim>\<open>IndexError\<close> on the empty string, which the pattern does not
  match.\<close>

definition camel :: "string \<Rightarrow> error + string" where
  "camel varname =
     (if snake_re_match varname
      then (let suffix = (if str_endswith varname ''_'' then ''_'' else '''')
            in Inr (concat (map str_title (str_split varname CHR ''_'')) @ suffix))
      else (case varname of
              [] \<Rightarrow> Inl (Raise IndexError [])
            | c # cs \<Rightarrow> Inr (str_upper [c] @ cs)))"

definition dromedary :: "string \<Rightarrow> error + string" where
  "dromedary varname =
     (if snake_re_match varname
      then (let chunks = str_split varname CHR ''_'';
                suffix = (if str_endswith varname ''_'' then ''_'' else '''')
            in Inr (str_lower (hd chunks) @ concat (map str_title (tl chunks)) @ suffix))
      else (case varname of
              [] \<Rightarrow> Inl (Raise IndexError [])
            | c # cs \<Rightarrow> Inr (str_lower [c] @ cs)))"

section \<open>Writing to the output buffer\<close>

text \<open>
  A visitor writes to \<^verbatim>\<open>self.out\<close>, a \<^verbatim>\<open>StringIO\<close>. A method is a function from the text
  the buffer holds to the text it holds afterwards, or to the exception that the method
  raises. \<^verbatim>\<open>logger.error\<close> writes to the log only and is left out. The Java converter
  imports \<^verbatim>\<open>StringIO\<close> from \<^verbatim>\<open>cStringIO\<close>, a module of Python 2, and works on the tree of
  Python 3; the model is of its classes with \<^verbatim>\<open>StringIO\<close> the buffer of text that
  \<^verbatim>\<open>io.StringIO\<close> is, as the Ruby converter imports it.
\<close>

type_synonym emit = "string \<Rightarrow> error + string"

definition out_write :: "string \<Rightarrow> emit" where
  "out_write s out = Inr (out @ s)"

definition raise :: "exn_class \<Rightarrow> exn_arg list \<Rightarrow> emit" where
  "raise c as out = Inl (Raise c as)"

definition pass :: emit where
  "pass out = Inr out"

text \<open>Statements in sequence: the first exception ends the sequence.\<close>

fun seqs :: "emit list \<Rightarrow> emit" where
  "seqs [] out = Inr out"
| "seqs (f # fs) out = (case f out of Inl e \<Rightarrow> Inl e | Inr out' \<Rightarrow> seqs fs out')"

text \<open>Writing a value whose computation can raise.\<close>

definition write_result :: "error + string \<Rightarrow> emit" where
  "write_result r = (case r of Inl e \<Rightarrow> (\<lambda>out. Inl e) | Inr s \<Rightarrow> out_write s)"

section \<open>java\_converter.py\<close>

definition JAVA_KEYWORDS :: "string set" where
  "JAVA_KEYWORDS = set [
    ''abstract'', ''continue'', ''for'', ''new'', ''switch'', ''assert'',
    ''default'', ''goto'', ''package'', ''synchronized'', ''boolean'', ''do'',
    ''if'', ''private'', ''this'', ''break'', ''double'', ''implements'',
    ''protected'', ''throw'', ''byte'', ''else'', ''import'', ''public'',
    ''throws'', ''case'', ''enum'', ''instanceof'', ''return'', ''transient'',
    ''catch'', ''extends'', ''int'', ''short'', ''try'', ''char'', ''final'',
    ''interface'', ''static'', ''void'', ''class'', ''finally'', ''long'',
    ''strictfp'', ''volatile'', ''const'', ''float'', ''native'', ''super'',
    ''while'']"

definition OBJECT_METHODS :: "string set" where
  "OBJECT_METHODS = set [
    ''clone'', ''equals'', ''finalize'', ''hashCode'', ''getClass'',
    ''notify'', ''notifyAll'', ''wait'', ''toString'']"

definition METHOD_ALIASES :: "(string \<times> string) list" where
  "METHOD_ALIASES = [(''GET_FIELD'', ''g'')]"

subsection \<open>Reading attributes of a node\<close>

text \<open>
  The classes with an attribute \<^verbatim>\<open>value\<close>, and the node it holds (the \<^verbatim>\<open>value\<close> of a
  \<^verbatim>\<open>NameConstant\<close> is a constant, not a node). Reading an attribute that a node does not
  have raises \<^verbatim>\<open>AttributeError\<close>.
\<close>

definition has_value :: "shape \<Rightarrow> bool" where
  "has_value sh =
     (case sh of
        Attribute _ _ \<Rightarrow> True | Subscript _ _ \<Rightarrow> True | Index _ \<Rightarrow> True
      | Assign _ _ \<Rightarrow> True | NameConstant _ \<Rightarrow> True | _ \<Rightarrow> False)"

definition value_node :: "shape \<Rightarrow> node option" where
  "value_node sh =
     (case sh of
        Attribute v _ \<Rightarrow> Some v | Subscript v _ \<Rightarrow> Some v | Index v \<Rightarrow> Some v
      | Assign _ v \<Rightarrow> Some v | _ \<Rightarrow> None)"

text \<open>\<^verbatim>\<open>str(type(node))\<close>.\<close>

definition class_name :: "shape \<Rightarrow> string" where
  "class_name sh =
     (case sh of
        Name _ \<Rightarrow> ''Name'' | NameConstant _ \<Rightarrow> ''NameConstant'' | Num _ \<Rightarrow> ''Num''
      | Str _ \<Rightarrow> ''Str'' | Bytes _ \<Rightarrow> ''Bytes'' | Attribute _ _ \<Rightarrow> ''Attribute''
      | Call _ _ _ \<Rightarrow> ''Call'' | Subscript _ _ \<Rightarrow> ''Subscript'' | Index _ \<Rightarrow> ''Index''
      | Slice _ _ _ \<Rightarrow> ''Slice'' | ExtSlice _ \<Rightarrow> ''ExtSlice'' | UnaryOp _ _ \<Rightarrow> ''UnaryOp''
      | BinOp _ _ _ \<Rightarrow> ''BinOp'' | Compare _ _ _ \<Rightarrow> ''Compare'' | List _ \<Rightarrow> ''List''
      | Tuple _ \<Rightarrow> ''Tuple'' | Dict _ _ \<Rightarrow> ''Dict'' | Lambda _ _ \<Rightarrow> ''Lambda''
      | Arg _ \<Rightarrow> ''arg'' | Assign _ _ \<Rightarrow> ''Assign'' | ListComp _ _ \<Rightarrow> ''ListComp''
      | BoolOp _ _ \<Rightarrow> ''BoolOp'')"

definition str_type :: "node \<Rightarrow> string" where
  "str_type node = ''<class '' @ [squote] @ ''_ast.'' @ class_name (shape node) @ [squote] @ ''>''"

text \<open>\<^verbatim>\<open>is_name(name, node)\<close> and \<^verbatim>\<open>attr_matches(path, node)\<close>, the path given by its two
  parts. \<^verbatim>\<open>is_name\<close> is also applied to the constant of a \<^verbatim>\<open>NameConstant\<close>, which is no
  \<^verbatim>\<open>Name\<close>.\<close>

definition is_name :: "string \<Rightarrow> node \<Rightarrow> bool" where
  "is_name name node = (case shape node of Name ident \<Rightarrow> ident = name | _ \<Rightarrow> False)"

definition attr_matches :: "string \<Rightarrow> string \<Rightarrow> node \<Rightarrow> error + bool" where
  "attr_matches root name node =
     (if \<not> has_value (shape node) then Inl (Raise AttributeError [])
      else (case value_node (shape node) of
              None \<Rightarrow> Inr False
            | Some v \<Rightarrow>
                if is_name root v
                then (case shape node of
                        Attribute _ attr \<Rightarrow> Inr (attr = name)
                      | _ \<Rightarrow> Inl (Raise AttributeError []))
                else Inr False))"

text \<open>\<^verbatim>\<open>attr_equals(node, "attr", value)\<close>: only an \<^verbatim>\<open>Attribute\<close> has the attribute \<^verbatim>\<open>attr\<close>.\<close>

definition attr_equals_attr :: "node \<Rightarrow> string \<Rightarrow> bool" where
  "attr_equals_attr node val = (case shape node of Attribute _ attr \<Rightarrow> attr = val | _ \<Rightarrow> False)"

subsection \<open>escape\_string and py\_to\_java\_type\<close>

definition escape_codepoint :: "char \<Rightarrow> string" where
  "escape_codepoint codepoint =
     (let rpr = butlast (tl (repr_str [codepoint]))
      in if prefix [backslash, CHR ''x''] rpr then [backslash] @ ''u00'' @ drop 2 rpr
         else if rpr = [dquote] then [backslash, dquote]
         else rpr)"

definition escape_string :: "string \<Rightarrow> emit" where
  "escape_string s =
     seqs ([out_write [dquote]] @ map (\<lambda>codepoint. out_write (escape_codepoint codepoint)) s
           @ [out_write [dquote]])"

text \<open>
  The argument of \<^verbatim>\<open>py_to_java_type\<close> is \<^verbatim>\<open>None\<close>, a string, or a type, of which the
  function reads \<^verbatim>\<open>__module__\<close>, \<^verbatim>\<open>__name__\<close> and, for the constants of
  \<^verbatim>\<open>rethinkdb.query\<close>, the class variable \<^verbatim>\<open>st\<close>.
\<close>

datatype py_type = NoType | TypeString string
  | PyType (type_module: string) (type_name: string) (type_st: "string option")

definition py_to_java_type :: "py_type \<Rightarrow> error + string option" where
  "py_to_java_type py_type =
     (case py_type of
        NoType \<Rightarrow> Inr None
      | TypeString s \<Rightarrow> Inr (Some s)
      | PyType m n st \<Rightarrow>
          if n = ''function'' then Inr (Some ''ReqlFunction1'')
          else if m = ''datetime'' \<and> n = ''datetime'' then Inr (Some ''OffsetDateTime'')
          else if m = ''builtins'' then
            (case map_of [(''bool'', ''Boolean''), (''bytes'', ''byte[]''), (''int'', ''Long''),
                          (''float'', ''Double''), (''str'', ''String''), (''dict'', ''Map''),
                          (''list'', ''List''), (''object'', ''Object''),
                          (''NoneType'', ''Object'')] n of
               None \<Rightarrow> Inl (Raise KeyError [])
             | Some j \<Rightarrow> Inr (Some j))
          else if m = ''rethinkdb.ast'' then Inr (Some (if n = ''DB'' then ''Db'' else n))
          else if m = ''rethinkdb.errors'' then Inr (Some n)
          else if m = ''?test?'' then
            (case camel n of
               Inl e \<Rightarrow> Inl e
             | Inr c \<Rightarrow> Inr (Some (if n = ''uuid'' then ''UUIDMatch'' else c)))
          else if m = ''rethinkdb.query'' then
            (case st of
               None \<Rightarrow> Inl (Raise AttributeError [])
             | Some s \<Rightarrow> map_sum id Some (camel s))
          else Inl (Raise RuntimeError
                 [Text (''Don'' @ [squote] @ ''t know how to convert python type '' @ m @ ''.''
                        @ n @ '' to java'')]))"

subsection \<open>The visitor objects\<close>

text \<open>
  A visitor of the class \<^verbatim>\<open>Visitor\<close> or of its subclass \<^verbatim>\<open>ReQLVisitor\<close>, with the
  attributes \<^verbatim>\<open>__init__\<close> sets; \<^verbatim>\<open>self.type\<close> is the converted type. The buffer \<^verbatim>\<open>self.out\<close> is
  passed along separately.
\<close>

record Visitor =
  v_reql_vars :: "string set"
  v_type :: "string option"
  is_def :: bool
  smart_bracket :: bool
  is_ReQLVisitor :: bool

definition Visitor_init ::
  "bool \<Rightarrow> string set \<Rightarrow> py_type \<Rightarrow> bool \<Rightarrow> bool \<Rightarrow> error + Visitor" where
  "Visitor_init subclass rv ty_arg isdef smart =
     (case py_to_java_type ty_arg of
        Inl e \<Rightarrow> Inl e
      | Inr ty \<Rightarrow>
          Inr \<lparr>v_reql_vars = rv, v_type = ty, is_def = isdef, smart_bracket = smart,
               is_ReQLVisitor = subclass\<rparr>)"

text \<open>\<^verbatim>\<open>Visitor()\<close>, with the defaults of \<^verbatim>\<open>__init__\<close>.\<close>

definition Visitor_default :: Visitor where
  "Visitor_default =
     \<lparr>v_reql_vars = {''r''}, v_type = None, is_def = False, smart_bracket = True,
      is_ReQLVisitor = False\<rparr>"

subsection \<open>Methods that call self.visit\<close>

text \<open>
  The methods below call \<^verbatim>\<open>self.visit\<close> on nodes; they take it as their first argument.
  \<^verbatim>\<open>Visitor.skip\<close> raises a \<^verbatim>\<open>RuntimeError\<close> with the message.
\<close>

definition java_skip :: "string \<Rightarrow> emit" where
  "java_skip message = raise RuntimeError [Text message]"

definition java_generic_visit :: "node \<Rightarrow> emit" where
  "java_generic_visit node =
     raise RuntimeError [Text (''Don'' @ [squote] @ ''t know what this thing is: '' @ str_type node)]"

fun join_from :: "('a \<Rightarrow> emit) \<Rightarrow> string \<Rightarrow> bool \<Rightarrow> 'a list \<Rightarrow> emit" where
  "join_from visit sep first [] out = Inr out"
| "join_from visit sep first (item # items) out =
     (case seqs [if first then pass else out_write sep, visit item] out of
        Inl e \<Rightarrow> Inl e
      | Inr out' \<Rightarrow> join_from visit sep False items out')"

definition join :: "('a \<Rightarrow> emit) \<Rightarrow> string \<Rightarrow> 'a list \<Rightarrow> emit" where
  "join visit sep items = join_from visit sep True items"

definition java_to_str :: "string \<Rightarrow> emit" where
  "java_to_str s = escape_string s"

text \<open>\<^verbatim>\<open>cast_null\<close>: the test compares the value of a \<^verbatim>\<open>NameConstant\<close> with the string
  \<^verbatim>\<open>"None"\<close>.\<close>

definition represents_null :: "node \<Rightarrow> bool" where
  "represents_null arg =
     (case shape arg of
        Name ident \<Rightarrow> ident = ''null''
      | NameConstant v \<Rightarrow> v = PyStr ''None''
      | _ \<Rightarrow> False)"

definition cast_null :: "(node \<Rightarrow> emit) \<Rightarrow> node \<Rightarrow> string \<Rightarrow> emit" where
  "cast_null visit arg cast =
     seqs [if represents_null arg then seqs [out_write ''('', out_write cast, out_write '') ''] else pass,
           visit arg]"

datatype wrap_arg = WS string | WN node

definition wrap :: "(node \<Rightarrow> emit) \<Rightarrow> wrap_arg list \<Rightarrow> emit" where
  "wrap visit args = seqs (map (\<lambda>arg. case arg of WS s \<Rightarrow> out_write s | WN n \<Rightarrow> visit n) args)"

definition java_to_args :: "(node \<Rightarrow> emit) \<Rightarrow> node list \<Rightarrow> keyword list \<Rightarrow> emit" where
  "java_to_args visit args optargs =
     seqs ([out_write ''('']
           @ (case args of
                [] \<Rightarrow> []
              | arg0 # rest \<Rightarrow>
                  cast_null visit arg0 ''ReqlExpr''
                  # concat (map (\<lambda>arg. [out_write '', '', cast_null visit arg ''ReqlExpr'']) rest))
           @ [out_write '')'']
           @ concat (map (\<lambda>optarg. [out_write ''.optArg('', java_to_str (kw_arg optarg), out_write '', '',
                                     visit (kw_value optarg), out_write '')'']) optargs))"

text \<open>\<^verbatim>\<open>Visitor.visit_Dict\<close>.\<close>

definition java_visit_Dict :: "(node \<Rightarrow> emit) \<Rightarrow> node list \<Rightarrow> node list \<Rightarrow> emit" where
  "java_visit_Dict visit keys vals =
     seqs ([out_write ''r.hashMap('']
           @ (case keys of
                [] \<Rightarrow> []
              | k0 # _ \<Rightarrow>
                  [visit k0, out_write '', '',
                   (case vals of [] \<Rightarrow> raise IndexError [] | v0 # _ \<Rightarrow> visit v0)])
           @ concat (map (\<lambda>kv. [out_write '').with('', visit (fst kv), out_write '', '',
                                 visit (snd kv)])
                       (zip (tl keys) (tl vals)))
           @ [out_write '')''])"

text \<open>
  \<^verbatim>\<open>visit_Attribute(node, emit_parens)\<close> of \<^verbatim>\<open>Visitor\<close> and of \<^verbatim>\<open>ReQLVisitor\<close>. In the subclass,
  when the value is the name \<^verbatim>\<open>r\<close> and the attribute is not \<^verbatim>\<open>row\<close>, the condition reads
  \<^verbatim>\<open>self.TOPLEVEL_CONSTANTS\<close>, an attribute that no class of the visitor defines
  (\<^verbatim>\<open>TOPLEVEL_CONSTANTS\<close> is a global of the module): \<^verbatim>\<open>AttributeError\<close>. So
  \<^verbatim>\<open>is_toplevel_constant\<close> is false wherever the method goes on.
\<close>

definition python_clashes :: "(string \<times> string) list" where
  "python_clashes = [(''or_'', ''or''), (''and_'', ''and''), (''not_'', ''not'')]"

definition java_visit_Attribute ::
  "(node \<Rightarrow> emit) \<Rightarrow> Visitor \<Rightarrow> node \<Rightarrow> string \<Rightarrow> bool \<Rightarrow> emit" where
  "java_visit_Attribute visit self val attr emit_parens =
     (if is_ReQLVisitor self then
        (if is_name ''r'' val \<and> attr = ''row''
         then java_skip (''Java driver doesn'' @ [squote] @ ''t support r.row'')
         else if is_name ''r'' val then raise AttributeError []
         else
           (let is_toplevel_constant = False;
                method_aliases = map (\<lambda>kv. (dromedary (fst kv), snd kv)) METHOD_ALIASES
            in seqs [visit val, out_write ''.'',
                 (case dromedary attr of
                    Inl e \<Rightarrow> (\<lambda>out. Inl e)
                  | Inr d \<Rightarrow>
                      (let initial = (case map_of python_clashes attr of Some x \<Rightarrow> x | None \<Rightarrow> d);
                           initial = (case map_of method_aliases (Inr initial) of
                                        Some x \<Rightarrow> x | None \<Rightarrow> initial)
                       in seqs [out_write initial,
                                if initial \<in> JAVA_KEYWORDS \<union> OBJECT_METHODS
                                then out_write ''_'' else pass,
                                if emit_parens \<and> is_toplevel_constant
                                then out_write ''()'' else pass]))]))
      else
        seqs [if is_name ''r'' val \<and> attr = ''ast'' then pass
              else seqs [visit val, out_write ''.''],
              write_result (dromedary attr)])"

text \<open>
  \<^verbatim>\<open>skip_if_arity_check\<close>. The pattern \<^verbatim>\<open>.*([Ee]xpect(ed|s)|Got) .* argument\<close> is matched from
  the start of the string, and \<^verbatim>\<open>.\<close> matches no newline: the first line holds one of the
  five words, a space, and further on a space and \<^verbatim>\<open>argument\<close>. \<^verbatim>\<open>AttributeError\<close> and
  \<^verbatim>\<open>TypeError\<close> are caught, \<^verbatim>\<open>IndexError\<close> is not.
\<close>

definition arity_words :: "string list" where
  "arity_words = [''Expected'', ''Expects'', ''expected'', ''expects'', ''Got'']"

definition arity_rgx_match :: "string \<Rightarrow> bool" where
  "arity_rgx_match s =
     (let line = takeWhile (\<lambda>c. c \<noteq> newline) s
      in list_ex (\<lambda>i. list_ex (\<lambda>w. prefix (w @ '' '') (drop i line)
                                  \<and> sublist '' argument'' (drop (i + length w + 1) line))
                         arity_words)
           [0..<length line])"

definition skip_if_arity_check :: "node \<Rightarrow> node list \<Rightarrow> emit" where
  "skip_if_arity_check func args =
     (case shape func of
        Name ident \<Rightarrow>
          if ident = ''err'' then
            (case args of
               _ # arg1 # _ \<Rightarrow>
                 (case shape arg1 of
                    Str s \<Rightarrow> if arity_rgx_match s
                             then java_skip ''arity checks done by java type system'' else pass
                  | _ \<Rightarrow> pass)
             | _ \<Rightarrow> raise IndexError [])
          else pass
      | _ \<Rightarrow> pass)"

text \<open>
  \<^verbatim>\<open>convert_if_string_encode\<close> returns whether it converted the call. The three reads under
  \<^verbatim>\<open>try\<close> fail to \<^verbatim>\<open>False\<close>; the look-up of the encoding is outside it, and a bytes key is
  not in the table.
\<close>

definition has_s :: "shape \<Rightarrow> bool" where
  "has_s sh = (case sh of Str _ \<Rightarrow> True | Bytes _ \<Rightarrow> True | _ \<Rightarrow> False)"

definition convert_if_string_encode ::
  "(node \<Rightarrow> emit) \<Rightarrow> node \<Rightarrow> node list \<Rightarrow> string \<Rightarrow> error + bool \<times> string" where
  "convert_if_string_encode visit func args out =
     (case shape func of
        Attribute val attr \<Rightarrow>
          if attr = ''encode'' \<and> has_s (shape val) then
            (case args of
               [] \<Rightarrow> Inr (False, out)
             | arg0 # _ \<Rightarrow>
                 (case shape arg0 of
                    Str encoding \<Rightarrow>
                      (case map_of [(''ascii'', ''US_ASCII''), (''utf-16'', ''UTF_16''),
                                    (''utf-8'', ''UTF_8'')] encoding of
                         None \<Rightarrow> Inl (Raise KeyError [])
                       | Some java_encoding \<Rightarrow>
                           map_sum id (Pair True)
                             (seqs [visit val, out_write ''.getBytes(StandardCharsets.'',
                                    out_write java_encoding, out_write '')''] out))
                  | Bytes _ \<Rightarrow> Inl (Raise KeyError [])
                  | _ \<Rightarrow> Inr (False, out)))
          else Inr (False, out)
      | _ \<Rightarrow> Inr (False, out))"

text \<open>The checks of \<^verbatim>\<open>ReQLVisitor.visit_Call\<close>, made after the call of the superclass.\<close>

definition map_check :: "node \<Rightarrow> error + bool" where
  "map_check node =
     (case shape node of
        Lambda _ _ \<Rightarrow> Inr True
      | Call f _ _ \<Rightarrow> attr_matches ''r'' ''js'' f
      | Dict _ _ \<Rightarrow> Inr True
      | Name _ \<Rightarrow> Inr True
      | _ \<Rightarrow> Inr False)"

definition ReQLVisitor_call_checks :: "node \<Rightarrow> node list \<Rightarrow> emit" where
  "ReQLVisitor_call_checks func args =
     (if attr_equals_attr func ''for_each'' then
        (case args of
           [] \<Rightarrow> raise IndexError []
         | arg0 # _ \<Rightarrow>
             (case shape arg0 of
                Lambda _ _ \<Rightarrow> pass
              | _ \<Rightarrow> java_skip (''the java driver doesn'' @ [squote] @ ''t allow ''
                              @ ''non-function arguments to forEach'')))
      else if attr_equals_attr func ''map'' then
        (case args of
           [] \<Rightarrow> raise IndexError []
         | _ # _ \<Rightarrow>
             (case map_check (last args) of
                Inl e \<Rightarrow> (\<lambda>out. Inl e)
              | Inr ok \<Rightarrow>
                  if ok then pass
                  else java_skip (''the java driver statically checks that ''
                                  @ ''map contains a function argument'')))
      else pass)"

text \<open>\<^verbatim>\<open>get_slice_bounds\<close> of a \<^verbatim>\<open>Slice\<close>, given by its lower and upper bound.\<close>

definition get_bound :: "node option \<Rightarrow> int \<Rightarrow> error + number" where
  "get_bound bound dflt =
     (case bound of
        None \<Rightarrow> Inr (NInt dflt)
      | Some b \<Rightarrow>
          (case shape b of
             UnaryOp op operand \<Rightarrow>
               if op = USub
               then (case shape operand of
                       Num n \<Rightarrow> Inr (neg_number n)
                     | _ \<Rightarrow> Inl (Raise AttributeError []))
               else Inl (Raise RuntimeError [TextDump ''Not handling bound: '' b])
           | Num n \<Rightarrow> Inr n
           | _ \<Rightarrow> Inl (Raise RuntimeError [TextDump ''Not handling bound: '' b])))"

definition get_slice_bounds ::
  "node option \<Rightarrow> node option \<Rightarrow> error + number \<times> number \<times> bool" where
  "get_slice_bounds lower upper =
     (let right_closed = (upper = None)
      in case get_bound lower 0 of
           Inl e \<Rightarrow> Inl e
         | Inr l \<Rightarrow>
             (case get_bound upper (- 1) of
                Inl e \<Rightarrow> Inl e
              | Inr u \<Rightarrow> Inr (l, u, right_closed)))"

definition right_bound_closed :: string where
  \<open>right_bound_closed = ''.optArg("right_bound", "closed")''\<close>

text \<open>The methods for the leaves.\<close>

definition java_visit_Bytes :: "8 word list \<Rightarrow> emit" where
  "java_visit_Bytes bs =
     seqs ([out_write ''new byte[]{'']
           @ concat (map (\<lambda>ib. [if fst ib > 0 then out_write '', '' else pass,
                                 if unat (snd ib) > 127
                                 then out_write (str_int (- (256 - int (unat (snd ib)))))
                                 else out_write (str_int (int (unat (snd ib))))])
                       (enumerate 0 bs))
           @ [out_write ''}''])"

definition java_visit_Name :: "string \<Rightarrow> emit" where
  "java_visit_Name ident =
     (if ident = ''frozenset''
      then java_skip (''can'' @ [squote] @ ''t convert frozensets to GroupedData yet'')
      else (let name = (if ident \<in> JAVA_KEYWORDS \<or> ident \<in> OBJECT_METHODS
                        then ident @ ''_'' else ident)
            in out_write (case map_of [(''True'', ''true''), (''False'', ''false''),
                                       (''None'', ''null''), (''nil'', ''null'')] name of
                            Some x \<Rightarrow> x | None \<Rightarrow> name)))"

definition java_visit_NameConstant :: "pyconst \<Rightarrow> emit" where
  "java_visit_NameConstant v =
     (case v of
        PyNone \<Rightarrow> out_write ''null''
      | PyTrue \<Rightarrow> out_write ''true''
      | PyFalse \<Rightarrow> out_write ''false''
      | PyStr s \<Rightarrow>
          raise RuntimeError [Text (''Don'' @ [squote] @ ''t know NameConstant with value '' @ s)])"

definition java_visit_Num :: "number \<Rightarrow> emit" where
  "java_visit_Num n =
     seqs [out_write (repr_number n),
           (case n of
              NFloat _ \<Rightarrow> pass
            | NInt i \<Rightarrow>
                if i > 9223372036854775807 \<or> i < - 9223372036854775808
                then out_write ''.0'' else out_write ''L'')]"

definition opMap :: "unaryop \<Rightarrow> string" where
  "opMap op = (case op of USub \<Rightarrow> ''-'' | Not_op \<Rightarrow> ''!'' | UAdd \<Rightarrow> ''+'' | Invert \<Rightarrow> ''~'')"

definition op_map :: "cmpop \<Rightarrow> string option" where
  "op_map = map_of [(Lt, '' < ''), (Gt, '' > ''), (GtE, '' >= ''), (LtE, '' <= ''),
                    (Eq, '' == ''), (NotEq, '' != '')]"

definition reql_map :: "cmpop \<Rightarrow> string option" where
  "reql_map = map_of [(Lt, ''lt''), (Gt, ''gt''), (GtE, ''ge''), (LtE, ''le''),
                      (Eq, ''eq''), (NotEq, ''ne'')]"

definition jsMap :: "operator \<Rightarrow> string option" where
  "jsMap = map_of [(Add, '' + ''), (Sub, '' - ''), (Mult, '' * ''), (Div, '' / ''),
                   (Mod, '' % ''), (Pow_op, '' ** '')]"

definition reqlMap :: "operator \<Rightarrow> string option" where
  "reqlMap = map_of [(Add, ''add''), (Sub, ''sub''), (Mult, ''mul''), (Div, ''div''),
                     (Mod, ''mod'')]"

text \<open>Writing the entry of a dictionary: a missing key raises \<^verbatim>\<open>KeyError\<close>.\<close>

definition write_entry :: "string option \<Rightarrow> emit" where
  "write_entry e = (case e of None \<Rightarrow> raise KeyError [] | Some s \<Rightarrow> out_write s)"

text \<open>The \<^verbatim>\<open>ReQLVisitor\<close> that \<^verbatim>\<open>visit_Assign\<close> builds on the same buffer:
  \<^verbatim>\<open>ReQLVisitor(self.reql_vars, out=self.out, type_=self.type, is_def=True)\<close>.\<close>

definition ReQLVisitor_of :: "Visitor \<Rightarrow> Visitor" where
  "ReQLVisitor_of self =
     \<lparr>v_reql_vars = v_reql_vars self, v_type = v_type self, is_def = True,
      smart_bracket = True, is_ReQLVisitor = True\<rparr>"

text \<open>Reading \<^verbatim>\<open>node.is_reql\<close>: \<^verbatim>\<open>AttributeError\<close> when the analysis has not set it.\<close>

definition read_is_reql :: "node \<Rightarrow> error + bool" where
  "read_is_reql node = (case is_reql node of None \<Rightarrow> Inl (Raise AttributeError []) | Some r \<Rightarrow> Inr r)"

subsection \<open>Congruence rules: a method visits only nodes of the tree it is given\<close>

lemma seqs_map_cong:
  "(\<And>x. x \<in> set xs \<Longrightarrow> f x = g x) \<Longrightarrow> seqs (map f xs) = seqs (map g xs)"
  by (simp cong: map_cong)

lemma join_from_cong:
  "(\<And>x. x \<in> set xs \<Longrightarrow> v x = v' x) \<Longrightarrow> join_from v sep first xs out = join_from v' sep first xs out"
  by (induction xs arbitrary: first out) (auto split: sum.splits)

lemma join_cong [fundef_cong]:
  assumes "xs = ys" and "\<And>x b. x \<in> set ys \<Longrightarrow> v x b = v' x b"
  shows "join v sep xs = join v' sep ys"
proof -
  have "\<And>x. x \<in> set ys \<Longrightarrow> v x = v' x"
    using assms(2) by blast
  then have "join_from v sep True ys out = join_from v' sep True ys out" for out
    by (rule join_from_cong)
  then show ?thesis
    unfolding join_def assms(1) by (rule ext)
qed

lemma java_to_args_cong [fundef_cong]:
  assumes "args = args'" and "optargs = optargs'"
    and "\<And>x b. x \<in> set args' \<Longrightarrow> v x b = v' x b"
    and "\<And>x b. x \<in> kw_value ` set optargs' \<Longrightarrow> v x b = v' x b"
  shows "java_to_args v args optargs = java_to_args v' args' optargs'"
proof -
  have a: "\<And>x. x \<in> set args' \<Longrightarrow> v x = v' x"
    using assms(3) by blast
  have k: "\<And>k. k \<in> set optargs' \<Longrightarrow> v (kw_value k) = v' (kw_value k)"
    using assms(4) by blast
  show ?thesis
    unfolding java_to_args_def cast_null_def assms(1,2)
    by (cases args') (simp_all add: a k cong: map_cong)
qed

lemma wrap_cong [fundef_cong]:
  assumes "args = args'" and "\<And>n b. WN n \<in> set args' \<Longrightarrow> v n b = v' n b"
  shows "wrap v args = wrap v' args'"
proof -
  have "\<And>n. WN n \<in> set args' \<Longrightarrow> v n = v' n"
    using assms(2) by blast
  then have m: "map (\<lambda>arg. case arg of WS s \<Rightarrow> out_write s | WN n \<Rightarrow> v n) args'
              = map (\<lambda>arg. case arg of WS s \<Rightarrow> out_write s | WN n \<Rightarrow> v' n) args'"
    by (intro map_cong refl) (auto split: wrap_arg.splits)
  show ?thesis
    unfolding wrap_def assms(1) m ..
qed

lemma java_visit_Dict_cong [fundef_cong]:
  assumes "keys = keys'" and "vals = vals'"
    and "\<And>x b. x \<in> set keys' \<Longrightarrow> v x b = v' x b"
    and "\<And>x b. x \<in> set vals' \<Longrightarrow> v x b = v' x b"
  shows "java_visit_Dict v keys vals = java_visit_Dict v' keys' vals'"
proof -
  have a: "\<And>x. x \<in> set keys' \<Longrightarrow> v x = v' x"
    using assms(3) by blast
  have b: "\<And>x. x \<in> set vals' \<Longrightarrow> v x = v' x"
    using assms(4) by blast
  have c: "\<And>kv. kv \<in> set (zip (tl keys') (tl vals')) \<Longrightarrow> v (fst kv) = v' (fst kv) \<and> v (snd kv) = v' (snd kv)"
    by (metis a b in_set_zipE list.sel(2) list.set_sel(2) prod.collapse)
  show ?thesis
    unfolding java_visit_Dict_def assms(1,2)
    by (cases keys'; cases vals') (simp_all add: a b c cong: map_cong)
qed

lemma java_visit_Attribute_cong [fundef_cong]:
  assumes "val = val'" and "\<And>x b. x = val' \<Longrightarrow> v x b = v' x b"
  shows "java_visit_Attribute v self val attr ep = java_visit_Attribute v' self val' attr ep"
proof -
  have "v val' = v' val'"
    using assms(2) by blast
  then show ?thesis
    unfolding java_visit_Attribute_def assms(1) by simp
qed

lemma convert_if_string_encode_cong [fundef_cong]:
  assumes "func = func'"
    and "\<And>val attr b. shape func' = Attribute val attr \<Longrightarrow> v val b = v' val b"
  shows "convert_if_string_encode v func args = convert_if_string_encode v' func' args"
proof (cases "\<exists>val attr. shape func' = Attribute val attr")
  case True
  then obtain val attr where s: "shape func' = Attribute val attr"
    by blast
  then have h: "v val = v' val"
    using assms(2) by blast
  show ?thesis
    unfolding assms(1) convert_if_string_encode_def s shape.case h ..
next
  case False
  then show ?thesis
    unfolding assms(1) convert_if_string_encode_def by (auto split: shape.splits)
qed

subsection \<open>Visitor.visit and ReQLVisitor.visit\<close>

text \<open>
  \<^verbatim>\<open>self.visit(node)\<close> calls the method \<^verbatim>\<open>visit_X\<close> of the class of the node, of the subclass
  where \<open>is_ReQLVisitor\<close> holds and the subclass overrides it, and \<^verbatim>\<open>generic_visit\<close> where
  there is none. In \<^verbatim>\<open>visit_Assign\<close> the statement
  \<^verbatim>\<open>if len(node.targets) != 1: RuntimeError("We only support assigning to one variable")\<close>
  builds an exception and drops it: it raises nothing and writes nothing, so it has no
  counterpart below.
\<close>

lemma size_kw_value_member: "k \<in> set ks \<Longrightarrow> size (kw_value k) < size_list size ks"
  by (induction ks) (auto simp: less_Suc_eq_le intro: trans_le_add1 split: keyword.splits, (case_tac k; simp)+)

lemma size_under_Attribute: "shape n = Attribute v a \<Longrightarrow> size v < size n"
  by (cases n) simp

lemma size_under_Index: "shape n = Index v \<Longrightarrow> size v < size n"
  by (cases n) simp

lemma size_under_Call: "shape n = Call f as ks \<Longrightarrow> size_list size as < size n"
  by (cases n) simp

definition ListComp_error :: "node \<Rightarrow> emit" where
  "ListComp_error node =
     raise RuntimeError
       [Text (''ListComp hack couldn'' @ [squote] @ ''t handle: ''), TextDump [] node]"

function (sequential) java_visit :: "Visitor \<Rightarrow> node \<Rightarrow> emit" where
  "java_visit self (Node t (Assign targets val)) out =
     (case v_type self of
        None \<Rightarrow> Inl (Raise TypeError [])
      | Some ty \<Rightarrow>
          seqs [out_write (ty @ '' ''),
                (case targets of
                   [] \<Rightarrow> raise IndexError []
                 | tgt # _ \<Rightarrow>
                     (case shape tgt of
                        Name ident \<Rightarrow> out_write ident
                      | _ \<Rightarrow> raise AttributeError [])),
                out_write '' = ('', out_write ty, out_write '') ('',
                (case t of
                   None \<Rightarrow> raise AttributeError []
                 | Some r \<Rightarrow>
                     if r then java_visit (ReQLVisitor_of self) val else java_visit self val),
                out_write '');''] out)"
| "java_visit self (Node t (Str s)) out = java_to_str s out"
| "java_visit self (Node t (Bytes bs)) out = java_visit_Bytes bs out"
| "java_visit self (Node t (Name ident)) out = java_visit_Name ident out"
| "java_visit self (Node t (Arg a)) out = out_write a out"
| "java_visit self (Node t (NameConstant v)) out = java_visit_NameConstant v out"
| "java_visit self (Node t (Attribute val attr)) out =
     java_visit_Attribute (java_visit self) self val attr True out"
| "java_visit self (Node t (Num n)) out = java_visit_Num n out"
| "java_visit self (Node t (Index val)) out = java_visit self val out"
| "java_visit self (Node t (Call func args keywords)) out =
     seqs [skip_if_arity_check func args,
           (\<lambda>out1.
              case convert_if_string_encode (java_visit self) func args out1 of
                Inl e \<Rightarrow> Inl e
              | Inr (converted, out2) \<Rightarrow>
                  if converted then Inr out2
                  else seqs [(case shape func of
                                Attribute val attr \<Rightarrow>
                                  if attr = ''error''
                                  then java_visit_Attribute (java_visit self) self val attr False
                                  else java_visit self func
                              | _ \<Rightarrow> java_visit self func),
                             java_to_args (java_visit self) args keywords] out2),
           if is_ReQLVisitor self then ReQLVisitor_call_checks func args else pass] out"
| "java_visit self (Node t (Dict keys vals)) out = java_visit_Dict (java_visit self) keys vals out"
| "java_visit self (Node t (List elts)) out =
     seqs [out_write ''r.array('', join (java_visit self) '', '' elts, out_write '')''] out"
| "java_visit self (Node t (Tuple elts)) out =
     seqs [out_write ''r.array('', join (java_visit self) '', '' elts, out_write '')''] out"
| "java_visit self (Node t (Lambda params body)) out =
     seqs [(case params of
              [p] \<Rightarrow> java_visit self (untagged (Arg p))
            | _ \<Rightarrow> java_to_args (java_visit self) (map (\<lambda>p. untagged (Arg p)) params) []),
           out_write '' -> '',
           java_visit self body] out"
| "java_visit self (Node t (Subscript val slc)) out =
     (if is_ReQLVisitor self then
        seqs [java_visit self val,
              (case shape slc of
                 Index v \<Rightarrow>
                   seqs [(case shape v of
                            Str _ \<Rightarrow> if smart_bracket self then out_write ''.g(''
                                     else out_write ''.bracket(''
                          | Num _ \<Rightarrow> if smart_bracket self then out_write ''.nth(''
                                     else out_write ''.bracket(''
                          | _ \<Rightarrow> out_write ''.bracket(''),
                         java_visit self v,
                         out_write '')'']
               | Slice lower upper step \<Rightarrow>
                   seqs [out_write ''.slice('',
                         (case get_slice_bounds lower upper of
                            Inl e \<Rightarrow> (\<lambda>out1. Inl e)
                          | Inr (l, u, rclosed) \<Rightarrow>
                              seqs [out_write (repr_number l), out_write '', '',
                                    out_write (repr_number u), out_write '')'',
                                    if rclosed then out_write right_bound_closed else pass])]
               | _ \<Rightarrow> raise RuntimeError [Text ''No translation for ExtSlice''])] out
      else
        (case value_node (shape slc) of
           None \<Rightarrow> Inl (Raise AttributeError [])
         | Some v \<Rightarrow>
             (case shape v of
                Num n \<Rightarrow>
                  seqs [java_visit self val, out_write ''.get('', out_write (repr_number n),
                        out_write '')''] out
              | Str s \<Rightarrow>
                  Inl (Raise RuntimeError
                        [Text (''Only integers subscript can be converted. Got '' @ s)])
              | Bytes bs \<Rightarrow>
                  Inl (Raise RuntimeError
                        [Text (''Only integers subscript can be converted. Got '' @ repr_bytes bs)])
              | _ \<Rightarrow> Inl (Raise AttributeError []))))"
| "java_visit self (Node t (ListComp elt generators)) out =
     (case generators of
        [] \<Rightarrow> Inl (Raise IndexError [])
      | Comprehension gen_target gen_iter gen_ifs # _ \<Rightarrow>
          seqs [(case shape gen_iter of
                   Call f as ks \<Rightarrow>
                     (case shape f of
                        Name ident \<Rightarrow>
                          if str_endswith ident ''range''
                          then seqs [out_write ''LongStream.range('',
                                     (case as of
                                        [a0] \<Rightarrow> seqs [out_write ''0, '', java_visit self a0]
                                      | [a0, a1] \<Rightarrow>
                                          seqs [java_visit self a0, out_write '', '',
                                                java_visit self a1]
                                      | _ \<Rightarrow> pass),
                                     out_write '').boxed()'']
                          else ListComp_error (Node t (ListComp elt generators))
                      | _ \<Rightarrow> raise AttributeError [])
                 | _ \<Rightarrow> ListComp_error (Node t (ListComp elt generators))),
                out_write ''.map('',
                java_visit self gen_target,
                out_write '' -> '',
                java_visit self elt,
                out_write '').collect(Collectors.toList())''] out)"
| "java_visit self (Node t (UnaryOp op operand)) out =
     (if is_ReQLVisitor self \<and> op = Invert
      then seqs [java_visit self operand, out_write ''.not()''] out
      else seqs [out_write (opMap op), java_visit self operand] out)"
| "java_visit self (Node t (Compare left ops comparators)) out =
     (case comparators of
        [] \<Rightarrow> Inl (Raise IndexError [])
      | [right] \<Rightarrow>
          (case ops of
             [] \<Rightarrow> Inl (Raise IndexError [])
           | op # _ \<Rightarrow>
               (case (case read_is_reql left of
                        Inl e \<Rightarrow> Inl e
                      | Inr l \<Rightarrow> if l then Inr True else read_is_reql right) of
                  Inl e \<Rightarrow> Inl e
                | Inr r \<Rightarrow>
                    if r
                    then (case reql_map op of
                            None \<Rightarrow> Inl (Raise KeyError [])
                          | Some m \<Rightarrow>
                              wrap (java_visit self)
                                [WS ''('', WN left, WS '').'', WS m, WS ''('', WN right,
                                 WS '')''] out)
                    else (case op_map op of
                            None \<Rightarrow> Inl (Raise KeyError [])
                          | Some m \<Rightarrow>
                              wrap (java_visit self) [WN left, WS m, WN right] out)))
      | _ \<Rightarrow> Inl (Raise RuntimeError [Text ''Chained comparison not supported'']))"
| "java_visit self (Node t (BinOp left op right)) out =
     (case t of
        None \<Rightarrow> Inl (Raise AttributeError [])
      | Some r \<Rightarrow>
          if r
          then (case read_is_reql left of
                  Inl e \<Rightarrow> Inl e
                | Inr l \<Rightarrow>
                    seqs [if \<not> l then out_write ''r.expr('' else pass,
                          java_visit self left,
                          if \<not> l then out_write '')'' else pass,
                          out_write ''.'',
                          write_entry (reqlMap op),
                          out_write ''('',
                          java_visit self right,
                          out_write '')''] out)
          else seqs [java_visit self left, write_entry (jsMap op), java_visit self right] out)"
| "java_visit self node out = java_generic_visit node out"
  by pat_completeness auto


termination
  by (relation "measure (\<lambda>(self, node, out). size node)")
    (auto simp: less_Suc_eq_le
       dest!: size_list_member [where f = "size :: node \<Rightarrow> nat"] size_kw_value_member
       dest: size_under_Attribute size_under_Index size_under_Call)

text \<open>\<^verbatim>\<open>Visitor.convert\<close> visits the node and returns \<^verbatim>\<open>self.out.getvalue()\<close>, the whole text
  of the buffer.\<close>

definition java_convert :: "Visitor \<Rightarrow> node \<Rightarrow> string \<Rightarrow> error + string" where
  "java_convert self node out =
     (case java_visit self node out of Inl e \<Rightarrow> Inl e | Inr out' \<Rightarrow> Inr out')"

section \<open>The case converters on identifiers\<close>

text \<open>
  The classification in the words of the specification: the whole string is an upper-case
  letter followed by upper-case letters, digits and underscores, or a lower-case letter
  followed by lower-case letters, digits and underscores.
\<close>

definition whole_snake :: "string \<Rightarrow> bool" where
  "whole_snake s =
     (case s of
        [] \<Rightarrow> False
      | c # cs \<Rightarrow>
          (isupper c \<and> list_all (\<lambda>x. isupper x \<or> isdigit x \<or> x = CHR ''_'') cs)
        \<or> (islower c \<and> list_all (\<lambda>x. islower x \<or> isdigit x \<or> x = CHR ''_'') cs))"

section \<open>multireql.py: a snippet through the analysis and the Java emitter\<close>

text \<open>
  \<^verbatim>\<open>parse_snippet\<close> runs \<^verbatim>\<open>add_is_reql_flags(parsed)\<close> on the parsed tree, and
  \<^verbatim>\<open>transpile_snippet(parsed, java_converter)\<close> is \<^verbatim>\<open>java_converter.Visitor().convert(parsed)\<close>:
  a new visitor with the defaults of \<^verbatim>\<open>__init__\<close>, whose buffer is empty.
\<close>

definition parse_snippet_flags :: "node \<Rightarrow> node" where
  "parse_snippet_flags parsed = add_is_reql_flags parsed None False"

definition transpile_snippet_java :: "node \<Rightarrow> error + string" where
  "transpile_snippet_java parsed = java_convert Visitor_default parsed []"

text \<open>\<^verbatim>\<open>ReQLVisitor()\<close>, and \<^verbatim>\<open>Visitor(type_=int)\<close>, whose \<^verbatim>\<open>self.type\<close> is \<^verbatim>\<open>'Long'\<close>.\<close>

definition ReQLVisitor_default :: Visitor where
  "ReQLVisitor_default = Visitor_default\<lparr>is_ReQLVisitor := True\<rparr>"

definition Visitor_Long :: Visitor where
  "Visitor_Long = Visitor_default\<lparr>v_type := Some ''Long''\<rparr>"

subsection \<open>More example trees\<close>

text \<open>\<^verbatim>\<open>a = b = 1\<close>, \<^verbatim>\<open>r.expr(None)\<close>, \<^verbatim>\<open>r.expr(null)\<close> and \<^verbatim>\<open>data[-2:]\<close>, as parsed.\<close>

definition ex_assign2 :: node where
  "ex_assign2 =
     untagged (Assign [untagged (Name ''a''), untagged (Name ''b'')] (untagged (Num (NInt 1))))"

definition ex_expr_None :: node where
  "ex_expr_None =
     untagged (Call (untagged (Attribute (untagged (Name ''r'')) ''expr''))
                 [untagged (NameConstant PyNone)] [])"

definition ex_expr_null :: node where
  "ex_expr_null =
     untagged (Call (untagged (Attribute (untagged (Name ''r'')) ''expr''))
                 [untagged (Name ''null'')] [])"

definition ex_minus_two :: node where
  "ex_minus_two = untagged (UnaryOp USub (untagged (Num (NInt 2))))"

definition ex_data_slice :: node where
  "ex_data_slice =
     untagged (Subscript (untagged (Name ''data''))
                 (untagged (Slice (Some ex_minus_two) None None)))"

section \<open>ruby\_converter.py: skip and generic\_visit\<close>



section \<open>What a caller sees of a failed conversion\<close>






subsection \<open>Example trees\<close>

text \<open>\<^verbatim>\<open>lambda x: x\<close>, \<^verbatim>\<open>bar(lambda x: x)\<close> and \<^verbatim>\<open>r.foo(bar(lambda x: x))\<close>, as parsed.\<close>

definition ex_lambda :: node where
  "ex_lambda = untagged (Lambda [''x''] (untagged (Name ''x'')))"

definition ex_bar_call :: node where
  "ex_bar_call = untagged (Call (untagged (Name ''bar'')) [ex_lambda] [])"

definition ex_nested_call :: node where
  "ex_nested_call =
     untagged (Call (untagged (Attribute (untagged (Name ''r'')) ''foo'')) [ex_bar_call] [])"

text \<open>\<^verbatim>\<open>1:\<close>, \<^verbatim>\<open>x[1:]\<close> and \<^verbatim>\<open>r.foo(x[1:])\<close>, as parsed.\<close>

definition ex_slice :: node where
  "ex_slice = untagged (Slice (Some (untagged (Num (NInt 1)))) None None)"

definition ex_subscript :: node where
  "ex_subscript = untagged (Subscript (untagged (Name ''x'')) ex_slice)"

definition ex_call_subscript :: node where
  "ex_call_subscript =
     untagged (Call (untagged (Attribute (untagged (Name ''r'')) ''foo'')) [ex_subscript] [])"

text \<open>\<^verbatim>\<open>[x for x in r]\<close> and \<^verbatim>\<open>r and x\<close>, as parsed.\<close>

definition ex_listcomp :: shape where
  "ex_listcomp =
     ListComp (untagged (Name ''x''))
       [Comprehension (untagged (Name ''x'')) (untagged (Name ''r'')) []]"

definition ex_boolop :: shape where
  "ex_boolop = BoolOp And [untagged (Name ''r''), untagged (Name ''x'')]"

section \<open>Properties of the analysis\<close>

lemma IsReql_init_reql_vars:
  "IsReql_init (Some (reql_vars (IsReql_init rv p))) q = IsReql_init rv q"
  by (auto simp: IsReql_init_def split: option.splits)

lemma tagged_Node: "tagged (Node t sh) = (t = Some True)"
  by (simp add: tagged_def)

text \<open>Every visit assigns the attribute of the node it is called on.\<close>

lemma IsReql_visit_assigns:
  "is_reql (IsReql_visit self n) = Some (tagged (IsReql_visit self n))"
  by (cases n; cases "shape n") (auto simp: tagged_def Let_def)

text \<open>The analysis of the example trees, step by step.\<close>

lemma ex_lambda_passed:
  "IsReql_visit (IsReql_init None True) ex_lambda =
     Node (Some True) (Lambda [''x''] (Node (Some True) (Name ''x'')))"
  by (simp add: ex_lambda_def IsReql_init_def)

lemma ex_lambda_not_passed:
  "IsReql_visit (IsReql_init None False) ex_lambda =
     Node (Some False) (Lambda [''x''] (Node (Some False) (Name ''x'')))"
  by (simp add: ex_lambda_def IsReql_init_def)

lemma ex_bar_call_passed:
  "IsReql_visit (IsReql_init None True) ex_bar_call =
     Node (Some False)
       (Call (Node (Some False) (Name ''bar'')) [IsReql_visit (IsReql_init None True) ex_lambda] [])"
  by (simp add: ex_bar_call_def IsReql_init_def tagged_def)

lemma ex_nested_call_flags:
  "add_is_reql_flags ex_nested_call None False =
     Node (Some True)
       (Call (Node (Some True) (Attribute (Node (Some True) (Name ''r'')) ''foo''))
          [IsReql_visit (IsReql_init None True) ex_bar_call] [])"
  by (simp add: add_is_reql_flags_def ex_nested_call_def IsReql_init_def tagged_def)

lemma ex_slice_passed:
  "IsReql_visit (IsReql_init None True) ex_slice =
     Node (Some True) (Slice (Some (Node (Some False) (Num (NInt 1)))) None None)"
  by (simp add: ex_slice_def IsReql_init_def)

lemma ex_slice_not_passed:
  "IsReql_visit (IsReql_init None False) ex_slice =
     Node (Some False) (Slice (Some (Node (Some False) (Num (NInt 1)))) None None)"
  by (simp add: ex_slice_def IsReql_init_def)

lemma ex_subscript_passed:
  "IsReql_visit (IsReql_init None True) ex_subscript =
     Node (Some False)
       (Subscript (Node (Some False) (Name ''x'')) (IsReql_visit (IsReql_init None True) ex_slice))"
  by (simp add: ex_subscript_def IsReql_init_def tagged_def)

lemma ex_call_subscript_flags:
  "add_is_reql_flags ex_call_subscript None False =
     Node (Some True)
       (Call (Node (Some True) (Attribute (Node (Some True) (Name ''r'')) ''foo''))
          [IsReql_visit (IsReql_init None True) ex_subscript] [])"
  by (simp add: add_is_reql_flags_def ex_call_subscript_def IsReql_init_def tagged_def)

text \<open>
  C1, as the code has it. A call gets the tag of its callee. The positional arguments and
  the keyword values are analysed by an analyser with the same root names whose
  \<^verbatim>\<open>passed_to_reql\<close> is true when the call is tagged, and is the ambient \<^verbatim>\<open>passed_to_reql\<close>,
  unchanged, when the call is not tagged: \<^verbatim>\<open>pp = self\<close>.
\<close>

theorem IsReql_visit_Call:
  fixes rv p t f as ks
  defines "self \<equiv> IsReql_init rv p"
  defines "call \<equiv> IsReql_visit self (Node t (Call f as ks))"
  defines "pp \<equiv> (if tagged call then IsReql_init rv True else IsReql_init rv p)"
  shows "is_reql call = is_reql (IsReql_visit self f)
       \<and> call_func (shape call) = IsReql_visit self f
       \<and> call_args (shape call) = map (IsReql_visit pp) as
       \<and> map kw_value (call_keywords (shape call)) = map (\<lambda>k. IsReql_visit pp (kw_value k)) ks
       \<and> map kw_is_reql (call_keywords (shape call)) = map (\<lambda>k. is_reql call) ks"
proof -
  have kw: "kw_value (IsReql_keyword a r k) = IsReql_visit a (kw_value k)"
    "kw_is_reql (IsReql_keyword a r k) = Some r" for a r k
    by (cases k; simp)+
  show ?thesis
    unfolding call_def pp_def self_def
    by (simp add: Let_def IsReql_visit_assigns IsReql_init_reql_vars kw comp_def tagged_Node)
qed

text \<open>
  C1, as the claim has it, fails: the arguments of a call that is not tagged are analysed
  with \<^verbatim>\<open>passed_to_reql\<close> true when that is the ambient value. In
  \<^verbatim>\<open>r.foo(bar(lambda x: x))\<close>, analysed from the entry point with its defaults, the call of
  \<^verbatim>\<open>bar\<close> is an argument of the tagged call of \<^verbatim>\<open>r.foo\<close>; it is not tagged, and its
  argument, the lambda, is analysed with \<^verbatim>\<open>passed_to_reql\<close> true (and so is tagged), not
  with false.
\<close>

theorem IsReql_visit_Call_counterexample:
  "add_is_reql_flags ex_nested_call None False =
     Node (Some True)
       (Call (Node (Some True) (Attribute (Node (Some True) (Name ''r'')) ''foo''))
          [IsReql_visit (IsReql_init None True) ex_bar_call] [])
   \<and> \<not> tagged (IsReql_visit (IsReql_init None True) ex_bar_call)
   \<and> call_args (shape (IsReql_visit (IsReql_init None True) ex_bar_call)) =
       [IsReql_visit (IsReql_init None True) ex_lambda]
   \<and> IsReql_visit (IsReql_init None True) ex_lambda =
       Node (Some True) (Lambda [''x''] (Node (Some True) (Name ''x'')))
   \<and> IsReql_visit (IsReql_init None True) ex_lambda
       \<noteq> IsReql_visit (IsReql_init None False) ex_lambda"
  by (simp add: ex_lambda_passed ex_lambda_not_passed ex_bar_call_passed ex_nested_call_flags
      tagged_def)

text \<open>
  C2, as the code has it. A subscript gets the tag of its base. Its index or slice is
  analysed with \<^verbatim>\<open>passed_to_reql\<close> true when the base is tagged, and with the ambient
  \<^verbatim>\<open>passed_to_reql\<close>, unchanged, when the base is not tagged: \<^verbatim>\<open>pp = self\<close>.
\<close>

theorem IsReql_visit_Subscript:
  fixes rv p t v s
  defines "self \<equiv> IsReql_init rv p"
  defines "sub \<equiv> IsReql_visit self (Node t (Subscript v s))"
  defines "pp \<equiv> (if tagged sub then IsReql_init rv True else IsReql_init rv p)"
  shows "is_reql sub = is_reql (IsReql_visit self v)
       \<and> subscript_value (shape sub) = IsReql_visit self v
       \<and> subscript_slice (shape sub) = IsReql_visit pp s"
  unfolding sub_def pp_def self_def
  by (simp add: Let_def IsReql_visit_assigns IsReql_init_reql_vars tagged_Node)

text \<open>
  C2, as the claim has it, fails: under a base that is not tagged the slice is not analysed
  with \<^verbatim>\<open>passed_to_reql\<close> reset to false. In \<^verbatim>\<open>r.foo(x[1:])\<close>, analysed from the entry point
  with its defaults, the subscript is an argument of a tagged call, its base \<^verbatim>\<open>x\<close> is not
  tagged, and its slice is analysed with \<^verbatim>\<open>passed_to_reql\<close> true: the slice is tagged.
\<close>

theorem IsReql_visit_Subscript_counterexample:
  "add_is_reql_flags ex_call_subscript None False =
     Node (Some True)
       (Call (Node (Some True) (Attribute (Node (Some True) (Name ''r'')) ''foo''))
          [IsReql_visit (IsReql_init None True) ex_subscript] [])
   \<and> \<not> tagged (IsReql_visit (IsReql_init None True) ex_subscript)
   \<and> subscript_slice (shape (IsReql_visit (IsReql_init None True) ex_subscript)) =
       IsReql_visit (IsReql_init None True) ex_slice
   \<and> IsReql_visit (IsReql_init None True) ex_slice =
       Node (Some True) (Slice (Some (Node (Some False) (Num (NInt 1)))) None None)
   \<and> IsReql_visit (IsReql_init None True) ex_slice
       \<noteq> IsReql_visit (IsReql_init None False) ex_slice"
  by (simp add: ex_slice_passed ex_slice_not_passed ex_subscript_passed ex_call_subscript_flags
      tagged_def)

text \<open>
  C6. The analysis returns a \<open>BinOp\<close> with both operands analysed (by the same analyser)
  and held in the returned node, and with the tag computed from the tags that those
  operands now carry: it is tagged exactly when its operator is not \<open>Pow\<close> and one of the
  operands held in it is tagged. Each of the two operands carries a tag, so \<open>tagged\<close> reads a
  Boolean that the analysis has assigned. With \<open>Pow\<close> the node is tagged false whatever
  the operands.
\<close>

theorem IsReql_visit_BinOp:
  "IsReql_visit self (Node t (BinOp left op right)) =
     Node (Some (op \<noteq> Pow_op
                 \<and> (tagged (IsReql_visit self left) \<or> tagged (IsReql_visit self right))))
       (BinOp (IsReql_visit self left) op (IsReql_visit self right))
   \<and> is_reql (IsReql_visit self left) = Some (tagged (IsReql_visit self left))
   \<and> is_reql (IsReql_visit self right) = Some (tagged (IsReql_visit self right))
   \<and> IsReql_visit self (Node t (BinOp left Pow_op right)) =
       Node (Some False) (BinOp (IsReql_visit self left) Pow_op (IsReql_visit self right))"
  by (simp add: Let_def IsReql_visit_assigns [symmetric])

text \<open>
  C10. A node of a class without a method of its own is tagged false and returned with
  its shape as it was: no descendant is visited, so none is assigned the attribute. The
  analysis is a total function: it returns for such a node.
\<close>

theorem IsReql_generic_visit:
  "\<not> IsReql_has_method sh \<Longrightarrow> IsReql_visit self (Node t sh) = Node (Some False) sh"
  by (cases sh) (simp_all add: IsReql_has_method_def)

theorem IsReql_generic_visit_witness:
  "\<not> IsReql_has_method ex_listcomp
   \<and> IsReql_visit (IsReql_init None True) (untagged ex_listcomp) =
       Node (Some False)
         (ListComp (untagged (Name ''x''))
            [Comprehension (untagged (Name ''x'')) (untagged (Name ''r'')) []])
   \<and> \<not> IsReql_has_method ex_boolop
   \<and> IsReql_visit (IsReql_init None True) (untagged ex_boolop) =
       Node (Some False) (BoolOp And [untagged (Name ''r''), untagged (Name ''x'')])"
proof -
  have a: "\<not> IsReql_has_method ex_listcomp" and b: "\<not> IsReql_has_method ex_boolop"
    by (simp_all add: IsReql_has_method_def ex_listcomp_def ex_boolop_def)
  show ?thesis
    using a b IsReql_generic_visit [OF a, of "IsReql_init None True" None]
      IsReql_generic_visit [OF b, of "IsReql_init None True" None]
    by (simp add: ex_listcomp_def ex_boolop_def)
qed

section \<open>Properties of the case converters\<close>

text \<open>
  The pattern ends in \<^verbatim>\<open>$\<close>, so \<^verbatim>\<open>re.match\<close> matches the whole string, but for one
  newline that may end it.
\<close>

lemma dollar_dropWhile:
  assumes "\<not> P newline"
  shows "dollar (dropWhile P cs) \<longleftrightarrow> list_all P cs \<or> (\<exists>bs. cs = bs @ [newline] \<and> list_all P bs)"
proof
  assume "dollar (dropWhile P cs)"
  then consider "dropWhile P cs = []" | "dropWhile P cs = [newline]"
    by (auto simp: dollar_def)
  then show "list_all P cs \<or> (\<exists>bs. cs = bs @ [newline] \<and> list_all P bs)"
  proof cases
    case 1
    then show ?thesis by (simp add: list_all_iff)
  next
    case 2
    have "takeWhile P cs @ dropWhile P cs = cs"
      by (rule takeWhile_dropWhile_id)
    then have "cs = takeWhile P cs @ [newline]"
      unfolding 2 by (rule sym)
    moreover have "list_all P (takeWhile P cs)"
      unfolding list_all_iff by (blast dest: set_takeWhileD)
    ultimately show ?thesis by blast
  qed
next
  assume "list_all P cs \<or> (\<exists>bs. cs = bs @ [newline] \<and> list_all P bs)"
  then show "dollar (dropWhile P cs)"
  proof
    assume "list_all P cs"
    then have "dropWhile P cs = []"
      by (simp add: list_all_iff)
    then show ?thesis
      by (simp add: dollar_def)
  next
    assume "\<exists>bs. cs = bs @ [newline] \<and> list_all P bs"
    then obtain bs where bs: "cs = bs @ [newline]" "list_all P bs"
      by blast
    have "dropWhile P (bs @ [newline]) = dropWhile P [newline]"
      using bs(2) by (intro dropWhile_append2) (simp add: list_all_iff)
    then have "dropWhile P cs = [newline]"
      using assms bs(1) by simp
    then show ?thesis
      by (simp add: dollar_def)
  qed
qed

lemma snake_re_match_whole:
  "snake_re_match s \<longleftrightarrow> whole_snake s \<or> (\<exists>bs. s = bs @ [newline] \<and> whole_snake bs)"
proof (cases s)
  case Nil
  then show ?thesis by (simp add: snake_re_match_def whole_snake_def)
next
  case (Cons c cs)
  define U where "U = (\<lambda>x. isupper x \<or> isdigit x \<or> x = CHR ''_'')"
  define L where "L = (\<lambda>x. islower x \<or> isdigit x \<or> x = CHR ''_'')"
  have n: "\<not> U newline" "\<not> L newline"
    by (simp_all add: U_def L_def isupper_def islower_def isdigit_def newline_def)
  have m: "snake_re_match (c # ds) \<longleftrightarrow>
             (isupper c \<and> (list_all U ds \<or> (\<exists>bs. ds = bs @ [newline] \<and> list_all U bs)))
           \<or> (islower c \<and> (list_all L ds \<or> (\<exists>bs. ds = bs @ [newline] \<and> list_all L bs)))" for ds
    unfolding snake_re_match_def list.case U_def [symmetric] L_def [symmetric]
    by (simp only: dollar_dropWhile [of U ds, OF n(1)] dollar_dropWhile [of L ds, OF n(2)])
  have w: "whole_snake (c # ds) \<longleftrightarrow> (isupper c \<and> list_all U ds) \<or> (islower c \<and> list_all L ds)" for ds
    unfolding whole_snake_def list.case U_def [symmetric] L_def [symmetric] ..
  have e: "(\<exists>bs. c # cs = bs @ [newline] \<and> whole_snake bs)
           \<longleftrightarrow> (\<exists>ds. cs = ds @ [newline] \<and> whole_snake (c # ds))"
  proof
    assume "\<exists>bs. c # cs = bs @ [newline] \<and> whole_snake bs"
    then obtain bs where bs: "c # cs = bs @ [newline]" "whole_snake bs"
      by blast
    then show "\<exists>ds. cs = ds @ [newline] \<and> whole_snake (c # ds)"
      by (cases bs) (auto simp: whole_snake_def)
  next
    assume "\<exists>ds. cs = ds @ [newline] \<and> whole_snake (c # ds)"
    then obtain ds where "cs = ds @ [newline]" "whole_snake (c # ds)"
      by blast
    then have "c # cs = (c # ds) @ [newline] \<and> whole_snake (c # ds)"
      by simp
    then show "\<exists>bs. c # cs = bs @ [newline] \<and> whole_snake bs"
      by blast
  qed
  have "snake_re_match (c # cs) \<longleftrightarrow>
          whole_snake (c # cs) \<or> (\<exists>ds. cs = ds @ [newline] \<and> whole_snake (c # ds))"
    unfolding m w by blast
  then show ?thesis
    unfolding Cons e .
qed

text \<open>
  C8. The five examples. A snake-case input (the whole string is upper or lower snake) is
  split at the underscores, its chunks are title-cased (the first one lower-cased by
  \<open>dromedary\<close>) and joined with no separator, and an underscore is appended when the input
  ends with one. Of an input that is not snake-case only the first character is upper-cased
  (\<open>camel\<close>) or lower-cased (\<open>dromedary\<close>); this is stated for the inputs the model is of,
  whose first character is ASCII, and that do not end in a newline (an identifier does
  not).
\<close>

theorem camel_dromedary:
  "camel ''foo_bar'' = Inr ''FooBar''
   \<and> camel ''foo_bar_'' = Inr ''FooBar_''
   \<and> dromedary ''foo_bar'' = Inr ''fooBar''
   \<and> camel ''fooBar'' = Inr ''FooBar''
   \<and> dromedary ''FooBar'' = Inr ''fooBar''
   \<and> (whole_snake s \<longrightarrow>
        camel s = Inr (concat (map str_title (str_split s CHR ''_''))
                       @ (if str_endswith s ''_'' then ''_'' else []))
      \<and> dromedary s = Inr (str_lower (hd (str_split s CHR ''_''))
                           @ concat (map str_title (tl (str_split s CHR ''_'')))
                           @ (if str_endswith s ''_'' then ''_'' else [])))
   \<and> (\<not> whole_snake (c # cs) \<and> (of_char c :: nat) < 128 \<and> last (c # cs) \<noteq> newline \<longrightarrow>
        camel (c # cs) = Inr (chr_upper c # cs) \<and> dromedary (c # cs) = Inr (chr_lower c # cs))"
proof -
  have "camel ''foo_bar'' = Inr ''FooBar''" by code_simp
  moreover have "camel ''foo_bar_'' = Inr ''FooBar_''" by code_simp
  moreover have "dromedary ''foo_bar'' = Inr ''fooBar''" by code_simp
  moreover have "camel ''fooBar'' = Inr ''FooBar''" by code_simp
  moreover have "dromedary ''FooBar'' = Inr ''fooBar''" by code_simp
  moreover have "snake_re_match s" if "whole_snake s"
    using that by (simp add: snake_re_match_whole)
  moreover have "\<not> snake_re_match (c # cs)"
    if nw: "\<not> whole_snake (c # cs)" and nl: "last (c # cs) \<noteq> newline"
  proof
    assume "snake_re_match (c # cs)"
    then obtain bs where "c # cs = bs @ [newline]"
      using nw by (auto simp: snake_re_match_whole)
    then have "last (c # cs) = newline"
      by (metis last_snoc)
    then show False
      using nl by simp
  qed
  ultimately show ?thesis
    by (simp add: camel_def dromedary_def Let_def str_upper_def str_lower_def)
qed

theorem camel_dromedary_witness:
  "whole_snake ''get_field_''
   \<and> camel ''get_field_'' = Inr ''GetField_''
   \<and> dromedary ''get_field_'' = Inr ''getField_''
   \<and> \<not> whole_snake ''getField'' \<and> \<not> whole_snake ''GetField''
   \<and> camel ''getField'' = Inr ''GetField''
   \<and> dromedary ''GetField'' = Inr ''getField''"
proof -
  have a: "whole_snake ''get_field_''" by code_simp
  have b: "\<not> whole_snake ''getField''" by code_simp
  have c: "\<not> whole_snake ''GetField''" by code_simp
  have d: "concat (map str_title (str_split ''get_field_'' CHR ''_''))
             @ (if str_endswith ''get_field_'' ''_'' then ''_'' else []) = ''GetField_''"
    by code_simp
  have e: "str_lower (hd (str_split ''get_field_'' CHR ''_''))
             @ concat (map str_title (tl (str_split ''get_field_'' CHR ''_'')))
             @ (if str_endswith ''get_field_'' ''_'' then ''_'' else []) = ''getField_''"
    by code_simp
  have f: "chr_upper CHR ''g'' = CHR ''G''" "chr_lower CHR ''G'' = CHR ''g''"
    by code_simp+
  have g: "(of_char CHR ''g'' :: nat) < 128" "(of_char CHR ''G'' :: nat) < 128"
    "last ''getField'' \<noteq> newline" "last ''GetField'' \<noteq> newline"
    by (simp_all add: newline_def)
  show ?thesis
    using a b c g camel_dromedary [of "''get_field_''" "CHR ''g''" "''etField''"]
      camel_dromedary [of "''get_field_''" "CHR ''G''" "''etField''"]
    by (simp only: d e f) simp
qed

section \<open>Properties of the Java emitter\<close>

text \<open>Sequences of statements.\<close>

lemma seqs_single: "seqs [f] out = f out"
  by (cases "f out") simp_all

lemma seqs_pass: "seqs (pass # fs) out = seqs fs out"
  by (simp add: pass_def)

lemma seqs_out_write: "seqs (out_write s # fs) out = seqs fs (out @ s)"
  by (simp add: out_write_def)

lemma seqs_append: "seqs (fs @ gs) out = (case seqs fs out of Inl e \<Rightarrow> Inl e | Inr out' \<Rightarrow> seqs gs out')"
  by (induction fs arbitrary: out) (simp_all split: sum.splits)

lemma seqs_seqs: "seqs (seqs gs # fs) out = seqs (gs @ fs) out"
  by (simp add: seqs_append)

lemma seqs_Inr: "f out = Inr out' \<Longrightarrow> seqs (f # fs) out = seqs fs out'"
  by simp

text \<open>
  C3. \<^verbatim>\<open>visit_Assign\<close> does not reject an assignment with more than one target: it builds
  the \<^verbatim>\<open>RuntimeError\<close> and does not raise it. What it writes depends on the first target
  only, and \<^verbatim>\<open>a = b = 1\<close>, through the analysis and a visitor of type \<^verbatim>\<open>Long\<close>, is
  converted to the text of \<^verbatim>\<open>a = 1\<close>.
\<close>

theorem java_visit_Assign_targets:
  "Visitor_init False {''r''} (PyType ''builtins'' ''int'' None) False True = Inr Visitor_Long
   \<and> java_convert Visitor_Long (parse_snippet_flags ex_assign2) [] = Inr ''Long a = (Long) (1L);''
   \<and> java_visit self (Node t (Assign (tgt # others) val)) out
       = java_visit self (Node t (Assign [tgt] val)) out"
proof -
  have "Visitor_init False {''r''} (PyType ''builtins'' ''int'' None) False True = Inr Visitor_Long"
    by (simp add: Visitor_init_def py_to_java_type_def Visitor_Long_def Visitor_default_def)
  moreover have "java_convert Visitor_Long (parse_snippet_flags ex_assign2) [] = Inr ''Long a = (Long) (1L);''"
    by code_simp
  moreover have "java_visit self (Node t (Assign (tgt # others) val)) out
                   = java_visit self (Node t (Assign [tgt] val)) out"
    by (cases "v_type self") simp_all
  ultimately show ?thesis
    by simp
qed

text \<open>
  C4. \<^verbatim>\<open>cast_null\<close> writes the cast before the name \<^verbatim>\<open>null\<close>, and writes none before the
  literal \<^verbatim>\<open>None\<close>: the value of a \<^verbatim>\<open>NameConstant\<close> that the parser builds is \<^verbatim>\<open>None\<close>, which
  is not the string \<^verbatim>\<open>"None"\<close> the method compares it with. \<^verbatim>\<open>r.expr(None)\<close> is converted to
  \<^verbatim>\<open>r.expr(null)\<close>, \<^verbatim>\<open>r.expr(null)\<close> to \<^verbatim>\<open>r.expr((ReqlExpr) null)\<close>.
\<close>

theorem cast_null_None_literal:
  "transpile_snippet_java (parse_snippet_flags ex_expr_None) = Inr ''r.expr(null)''
   \<and> transpile_snippet_java (parse_snippet_flags ex_expr_null) = Inr ''r.expr((ReqlExpr) null)''
   \<and> cast_null visit (Node t (NameConstant PyNone)) cast out
       = visit (Node t (NameConstant PyNone)) out
   \<and> cast_null visit (Node t (Name ''null'')) cast out
       = visit (Node t (Name ''null'')) (out @ ''('' @ cast @ '') '')"
proof -
  have "transpile_snippet_java (parse_snippet_flags ex_expr_None) = Inr ''r.expr(null)''"
    by code_simp
  moreover have "transpile_snippet_java (parse_snippet_flags ex_expr_null) = Inr ''r.expr((ReqlExpr) null)''"
    by code_simp
  moreover have "cast_null visit (Node t (NameConstant PyNone)) cast out
                   = visit (Node t (NameConstant PyNone)) out"
    unfolding cast_null_def represents_null_def
    by (simp only: node.sel shape.case pyconst.distinct if_False seqs_pass seqs_single)
  moreover have "cast_null visit (Node t (Name ''null'')) cast out
                   = visit (Node t (Name ''null'')) (out @ ''('' @ cast @ '') '')"
    unfolding cast_null_def represents_null_def
    by (simp only: node.sel shape.case refl if_True seqs_seqs append.simps seqs_out_write
          seqs_single append_assoc)
  ultimately show ?thesis
    by simp
qed

text \<open>
  C7. In \<^verbatim>\<open>ReQLVisitor.visit_Subscript\<close>, a slice is rendered after its base as
  \<^verbatim>\<open>.slice(lower, upper)\<close>: a bound that is left out is 0 for the lower and -1 for the upper
  bound, a bound \<^verbatim>\<open>-n\<close> with a number literal \<^verbatim>\<open>n\<close> is the negated number, a number
  literal is itself, and the option text follows exactly when the upper bound is left
  out. \<^verbatim>\<open>data[-2:]\<close> is rendered as \<^verbatim>\<open>data.slice(-2, -1)\<close> followed by the option text.
\<close>

theorem ReQLVisitor_visit_Subscript_slice:
  "get_bound None d = Inr (NInt d)
   \<and> get_bound (Some (Node t1 (UnaryOp USub (Node t2 (Num (NInt n)))))) d = Inr (NInt (- n))
   \<and> get_bound (Some (Node t1 (Num m))) d = Inr m
   \<and> (is_ReQLVisitor self \<and> java_visit self val out = Inr out1
        \<and> get_bound lower 0 = Inr l \<and> get_bound upper (- 1) = Inr u \<longrightarrow>
        java_visit self (Node t (Subscript val (Node ts (Slice lower upper step)))) out
        = Inr (out1 @ ''.slice('' @ repr_number l @ '', '' @ repr_number u @ '')''
               @ (if upper = None then right_bound_closed else [])))
   \<and> java_convert ReQLVisitor_default ex_data_slice [] = Inr (''data.slice(-2, -1)'' @ right_bound_closed)"
proof -
  have "java_convert ReQLVisitor_default ex_data_slice [] = Inr (''data.slice(-2, -1)'' @ right_bound_closed)"
    by code_simp
  moreover have "java_visit self (Node t (Subscript val (Node ts (Slice lower upper step)))) out
        = Inr (out1 @ ''.slice('' @ repr_number l @ '', '' @ repr_number u @ '')''
               @ (if upper = None then right_bound_closed else []))"
    if "is_ReQLVisitor self" "java_visit self val out = Inr out1"
      "get_bound lower 0 = Inr l" "get_bound upper (- 1) = Inr u"
    using that
    by (simp add: get_slice_bounds_def seqs_out_write seqs_pass seqs_single seqs_seqs
          del: seqs.simps)
       (simp add: out_write_def pass_def)
  ultimately show ?thesis
    by (simp add: get_bound_def neg_number_def)
qed

theorem ReQLVisitor_visit_Subscript_slice_witness:
  "is_ReQLVisitor ReQLVisitor_default
   \<and> java_visit ReQLVisitor_default (untagged (Name ''data'')) [] = Inr ''data''
   \<and> get_bound (Some ex_minus_two) 0 = Inr (NInt (- 2))
   \<and> get_bound None (- 1) = Inr (NInt (- 1))
   \<and> java_visit ReQLVisitor_default ex_data_slice []
       = Inr (''data'' @ ''.slice('' @ ''-2'' @ '', '' @ ''-1'' @ '')'' @ right_bound_closed)"
proof -
  have a: "is_ReQLVisitor ReQLVisitor_default"
    by (simp add: ReQLVisitor_default_def)
  have b: "java_visit ReQLVisitor_default (untagged (Name ''data'')) [] = Inr ''data''"
    by code_simp
  have c: "get_bound (Some ex_minus_two) 0 = Inr (NInt (- 2))"
    by (simp add: ex_minus_two_def get_bound_def neg_number_def)
  have d: "get_bound None (- 1) = Inr (NInt (- 1))"
    by (simp add: get_bound_def)
  have e: "repr_number (NInt (- 2)) = ''-2''" "repr_number (NInt (- 1)) = ''-1''"
    by code_simp+
  show ?thesis
    using a b c d
      ReQLVisitor_visit_Subscript_slice [where self = ReQLVisitor_default
        and val = "untagged (Name ''data'')" and out = "[]" and ?out1.0 = "''data''"
        and lower = "Some ex_minus_two" and l = "NInt (- 2)" and upper = None
        and u = "NInt (- 1)" and t = None and ts = None and step = None]
    by (simp add: ex_data_slice_def e)
qed

section \<open>Skip rules and unmodelled constructs\<close>




end
